theory Spec2Isabelle
  imports Main
begin

section \<open>JavaScript dates\<close>

text \<open>
  A \<open>Date\<close> holds a time value: a number of milliseconds since the epoch, or NaN
  (an invalid date, what \<open>new Date\<close> yields for an unparseable string). Every
  timestamp string of the program is used only through \<open>new Date(...)\<close>, so the
  model stores the time value that the constructor yields.

  Two assumptions on the host: its zone is a fixed offset \<open>tz\<close> (milliseconds east of
  UTC, no daylight-saving transition), so local time is \<open>t + tz\<close>; and every instant
  stays inside the range a \<open>Date\<close> can hold, so time values are unbounded integers.
\<close>

datatype jsdate = InvalidDate | TimeValue int

definition msPerMinute :: int where
  "msPerMinute = 60000"

definition msPerHour :: int where
  "msPerHour = 3600000"

definition msPerDay :: int where
  "msPerDay = 86400000"

text \<open>The relational operators on dates compare time values; with NaN they are false.\<close>

fun js_lt :: "jsdate \<Rightarrow> jsdate \<Rightarrow> bool" where
  "js_lt (TimeValue a) (TimeValue b) = (a < b)"
| "js_lt _ _ = False"

fun js_le :: "jsdate \<Rightarrow> jsdate \<Rightarrow> bool" where
  "js_le (TimeValue a) (TimeValue b) = (a \<le> b)"
| "js_le _ _ = False"

fun js_gt :: "jsdate \<Rightarrow> jsdate \<Rightarrow> bool" where
  "js_gt (TimeValue a) (TimeValue b) = (a > b)"
| "js_gt _ _ = False"

fun js_ge :: "jsdate \<Rightarrow> jsdate \<Rightarrow> bool" where
  "js_ge (TimeValue a) (TimeValue b) = (a \<ge> b)"
| "js_ge _ _ = False"

text \<open>The number of the local calendar day that holds the instant \<open>t\<close>.\<close>

definition localDay :: "int \<Rightarrow> int \<Rightarrow> int" where
  "localDay tz t = (t + tz) div msPerDay"

text \<open>\<open>getDay()\<close>: 0 is Sunday, 6 is Saturday; day 0 of the epoch was a Thursday.
  \<open>None\<close> is NaN.\<close>

fun getDay :: "int \<Rightarrow> jsdate \<Rightarrow> int option" where
  "getDay tz (TimeValue t) = Some ((localDay tz t + 4) mod 7)"
| "getDay tz InvalidDate = None"

text \<open>\<open>toDateString()\<close> prints the local calendar date (weekday, month, day, year) and
  nothing of the time of day: two valid dates print the same string exactly when they lie
  on the same local day. \<open>None\<close> stands for the string \<open>Invalid Date\<close>.\<close>

fun toDateString :: "int \<Rightarrow> jsdate \<Rightarrow> int option" where
  "toDateString tz (TimeValue t) = Some (localDay tz t)"
| "toDateString tz InvalidDate = None"

text \<open>\<open>d.setHours(h, m, 0, 0)\<close>: the local day of \<open>d\<close> is kept, the time of day is
  replaced. A NaN argument makes the date invalid.\<close>

fun setHours :: "int \<Rightarrow> jsdate \<Rightarrow> int option \<Rightarrow> int option \<Rightarrow> jsdate" where
  "setHours tz (TimeValue t) (Some h) (Some m) =
     TimeValue (localDay tz t * msPerDay + h * msPerHour + m * msPerMinute - tz)"
| "setHours tz _ _ _ = InvalidDate"

text \<open>\<open>d.setMinutes(d.getMinutes() + n)\<close> and \<open>d.setDate(d.getDate() + 1)\<close>.\<close>

fun addMinutes :: "jsdate \<Rightarrow> int \<Rightarrow> jsdate" where
  "addMinutes (TimeValue t) n = TimeValue (t + n * msPerMinute)"
| "addMinutes InvalidDate n = InvalidDate"

fun addDay :: "jsdate \<Rightarrow> jsdate" where
  "addDay (TimeValue t) = TimeValue (t + msPerDay)"
| "addDay InvalidDate = InvalidDate"

section \<open>Parsing the work-hours strings\<close>

text \<open>\<open>s.split(":")\<close>.\<close>

fun split_colon :: "string \<Rightarrow> string list" where
  "split_colon [] = [[]]"
| "split_colon (c # cs) =
     (if c = CHR '':'' then [] # split_colon cs
      else (case split_colon cs of [] \<Rightarrow> [[c]] | p # ps \<Rightarrow> (c # p) # ps))"

text \<open>\<open>Number(s)\<close> on the strings the program stores in its time fields: a string of
  decimal digits is its value, the empty string is 0; any other string is taken as NaN
  (\<open>None\<close>).\<close>

definition digit_of :: "char \<Rightarrow> int option" where
  "digit_of = map_of
     [(CHR ''0'', 0), (CHR ''1'', 1), (CHR ''2'', 2), (CHR ''3'', 3), (CHR ''4'', 4),
      (CHR ''5'', 5), (CHR ''6'', 6), (CHR ''7'', 7), (CHR ''8'', 8), (CHR ''9'', 9)]"

fun number_digits :: "int \<Rightarrow> string \<Rightarrow> int option" where
  "number_digits acc [] = Some acc"
| "number_digits acc (c # cs) =
     (case digit_of c of None \<Rightarrow> None | Some v \<Rightarrow> number_digits (10 * acc + v) cs)"

definition Number :: "string \<Rightarrow> int option" where
  "Number s = number_digits 0 s"

text \<open>\<open>const [a, b] = xs; ... a ?? 0\<close>: a missing element is undefined and becomes 0,
  a NaN element stays NaN.\<close>

definition elem_or_zero :: "int option list \<Rightarrow> nat \<Rightarrow> int option" where
  "elem_or_zero xs i = (if i < length xs then xs ! i else Some 0)"

section \<open>Data model (types.ts)\<close>

record WorkHours =
  wh_start :: string
  wh_end :: string

record Employee =
  emp_id :: string
  emp_name :: string
  emp_email :: string
  workHours :: WorkHours

datatype Status = scheduled | completed | cancelled

record WorkAssignment =
  wa_id :: string
  employeeId :: string
  clientName :: string
  clientPhone :: string
  clientAddress :: string
  workType :: string
  startTime :: jsdate
  endTime :: jsdate
  comment :: "string option"
  status :: Status
  createdAt :: jsdate
  updatedAt :: jsdate

record TimeSlot =
  ts_start :: jsdate
  ts_end :: jsdate
  available :: bool
  assignmentId :: "string option"
  ts_employeeId :: string

record CalendarSettings =
  workStartTime :: string
  workEndTime :: string
  slotDuration :: int
  adminEmail :: string

section \<open>The slot generator (calendarController.ts, generateTimeSlotsForDay)\<close>

text \<open>The three lines that parse one work-hours string and anchor it to the day:
  \<open>split(":").map(Number)\<close>, \<open>new Date(date)\<close>, \<open>setHours(h ?? 0, m ?? 0, 0, 0)\<close>.\<close>

definition anchor :: "int \<Rightarrow> jsdate \<Rightarrow> string \<Rightarrow> jsdate" where
  "anchor tz date hhmm =
     (let parts = map Number (split_colon hhmm)
      in setHours tz date (elem_or_zero parts 0) (elem_or_zero parts 1))"

definition dayAssignmentsOf ::
  "int \<Rightarrow> jsdate \<Rightarrow> Employee \<Rightarrow> WorkAssignment list \<Rightarrow> WorkAssignment list" where
  "dayAssignmentsOf tz date employee assignments =
     filter (\<lambda>assignment.
        employeeId assignment = emp_id employee
        \<and> toDateString tz (startTime assignment) = toDateString tz date
        \<and> status assignment = scheduled) assignments"

definition slotHasConflict :: "jsdate \<Rightarrow> jsdate \<Rightarrow> WorkAssignment list \<Rightarrow> bool" where
  "slotHasConflict currentTime slotEnd dayAssignments =
     list_ex (\<lambda>assignment.
        (js_ge currentTime (startTime assignment) \<and> js_lt currentTime (endTime assignment))
        \<or> (js_gt slotEnd (startTime assignment) \<and> js_le slotEnd (endTime assignment))
        \<or> (js_le currentTime (startTime assignment) \<and> js_ge slotEnd (endTime assignment)))
       dayAssignments"

definition makeSlot :: "int \<Rightarrow> WorkAssignment list \<Rightarrow> string \<Rightarrow> jsdate \<Rightarrow> TimeSlot" where
  "makeSlot duration dayAssignments eid currentTime =
     (let slotEnd = addMinutes currentTime duration;
          hasConflict = slotHasConflict currentTime slotEnd dayAssignments
      in \<lparr> ts_start = currentTime,
           ts_end = slotEnd,
           available = (\<not> hasConflict),
           assignmentId =
             (if hasConflict
              then map_option wa_id
                     (find (\<lambda>a. js_ge currentTime (startTime a) \<and> js_lt currentTime (endTime a))
                        dayAssignments)
              else None),
           ts_employeeId = eid \<rparr>)"

text \<open>The while loop. It does not return when the duration is not positive and the
  window is not empty, so its result is an option: \<open>None\<close> is "does not return".\<close>

partial_function (option) slotLoop ::
  "int \<Rightarrow> jsdate \<Rightarrow> WorkAssignment list \<Rightarrow> string \<Rightarrow> jsdate \<Rightarrow> TimeSlot list
     \<Rightarrow> TimeSlot list option" where
  "slotLoop duration workEnd dayAssignments eid currentTime slots =
     (if js_lt currentTime workEnd
      then slotLoop duration workEnd dayAssignments eid (addMinutes currentTime duration)
             (slots @ [makeSlot duration dayAssignments eid currentTime])
      else Some slots)"

definition generateTimeSlotsForDay ::
  "int \<Rightarrow> jsdate \<Rightarrow> Employee \<Rightarrow> CalendarSettings \<Rightarrow> WorkAssignment list
     \<Rightarrow> TimeSlot list option" where
  "generateTimeSlotsForDay tz date employee settings assignments =
     (let workStart = workStartTime settings;
          workEnd = workEndTime settings;
          duration = slotDuration settings;
          workStartT = anchor tz date workStart;
          workEndT = anchor tz date workEnd;
          dayAssignments = dayAssignmentsOf tz date employee assignments
      in slotLoop duration workEndT dayAssignments (emp_id employee) workStartT [])"

declare slotLoop.simps [code]

section \<open>The date-range iteration (calendarController.ts, getTimeSlots)\<close>

datatype error = AppError string nat

record StorageData =
  employees :: "Employee list"
  workAssignments :: "WorkAssignment list"
  settings :: CalendarSettings

text \<open>The query of \<open>GET /calendar/timeslots\<close>. A parameter that is missing or empty is
  falsy: \<open>None\<close> for a date, the empty string for the employee id. A date that is present
  is the value of \<open>new Date(...)\<close> on it.\<close>

record TimeSlotsQuery =
  q_employeeId :: string
  q_startDate :: "jsdate option"
  q_endDate :: "jsdate option"

text \<open>\<open>for (const employee of targetEmployees) { timeSlots.push(...slots) }\<close>\<close>

fun employeesLoop ::
  "int \<Rightarrow> jsdate \<Rightarrow> CalendarSettings \<Rightarrow> WorkAssignment list \<Rightarrow> Employee list
     \<Rightarrow> TimeSlot list \<Rightarrow> TimeSlot list option" where
  "employeesLoop tz date st assignments [] timeSlots = Some timeSlots"
| "employeesLoop tz date st assignments (employee # rest) timeSlots =
     (case generateTimeSlotsForDay tz date employee st assignments of
        None \<Rightarrow> None
      | Some slots \<Rightarrow> employeesLoop tz date st assignments rest (timeSlots @ slots))"

text \<open>\<open>while (currentDate <= end) { ...; currentDate.setDate(currentDate.getDate() + 1) }\<close>\<close>

function dayLoop ::
  "int \<Rightarrow> Employee list \<Rightarrow> WorkAssignment list \<Rightarrow> CalendarSettings \<Rightarrow> string \<Rightarrow> jsdate
     \<Rightarrow> jsdate \<Rightarrow> TimeSlot list \<Rightarrow> TimeSlot list option" where
  "dayLoop tz emps assignments st eid endDate currentDate timeSlots =
     (if js_le currentDate endDate
      then (let dayOfWeek = getDay tz currentDate
            in if dayOfWeek \<noteq> Some 0 \<and> dayOfWeek \<noteq> Some 6
               then (let targetEmployees =
                           (if eid \<noteq> [] then filter (\<lambda>emp. emp_id emp = eid) emps else emps)
                     in case employeesLoop tz currentDate st assignments targetEmployees timeSlots of
                          None \<Rightarrow> None
                        | Some timeSlots' \<Rightarrow>
                            dayLoop tz emps assignments st eid endDate (addDay currentDate) timeSlots')
               else dayLoop tz emps assignments st eid endDate (addDay currentDate) timeSlots)
      else Some timeSlots)"
  by pat_completeness auto
termination
proof (relation "measure (\<lambda>(tz, emps, assignments, st, eid, endDate, currentDate, timeSlots).
          case (currentDate, endDate) of
            (TimeValue c, TimeValue e) \<Rightarrow> nat (e - c + 1)
          | _ \<Rightarrow> 0)")
  show "wf (measure (\<lambda>(tz, emps, assignments, st, eid, endDate, currentDate, timeSlots).
          case (currentDate, endDate) of
            (TimeValue c, TimeValue e) \<Rightarrow> nat (e - c + 1)
          | _ \<Rightarrow> 0))"
    by simp
qed (auto elim!: js_le.elims simp: msPerDay_def)

declare dayLoop.simps [simp del]

text \<open>The handler. The outer option is \<open>None\<close> when the handler does not return; a thrown
  \<open>AppError\<close> is \<open>Inl\<close>, the \<open>data\<close> of the JSON response is \<open>Inr\<close>.\<close>

definition getTimeSlots ::
  "int \<Rightarrow> StorageData \<Rightarrow> TimeSlotsQuery \<Rightarrow> (error + TimeSlot list) option" where
  "getTimeSlots tz storage query =
     (case (q_startDate query, q_endDate query) of
        (Some start, Some endDate) \<Rightarrow>
          if start = InvalidDate \<or> endDate = InvalidDate
          then Some (Inl (AppError ''Invalid date format'' 400))
          else (case dayLoop tz (employees storage) (workAssignments storage) (settings storage)
                       (q_employeeId query) endDate start [] of
                  None \<Rightarrow> None
                | Some timeSlots \<Rightarrow> Some (Inr timeSlots))
      | _ \<Rightarrow> Some (Inl (AppError ''startDate and endDate are required'' 400)))"

section \<open>Creating and updating assignments (assignmentController.ts, storageService.ts)\<close>

text \<open>The body of \<open>POST /assignments\<close>. A field that is missing or empty is falsy: the
  empty string, and \<open>None\<close> for a timestamp.\<close>

record CreateWorkAssignmentRequest =
  req_employeeId :: string
  req_clientName :: string
  req_clientPhone :: string
  req_clientAddress :: string
  req_workType :: string
  req_startTime :: "jsdate option"
  req_endTime :: "jsdate option"
  req_comment :: "string option"

definition validWorkTypes :: "string list" where
  "validWorkTypes = [''measurement'', ''maintenance'', ''demolition'', ''consultation'']"

definition getEmployeeById :: "StorageData \<Rightarrow> string \<Rightarrow> Employee option" where
  "getEmployeeById storage ident = find (\<lambda>emp. emp_id emp = ident) (employees storage)"

text \<open>The expression bound to \<open>hasConflict\<close> in \<open>createAssignment\<close>.\<close>

definition hasConflict :: "string \<Rightarrow> jsdate \<Rightarrow> jsdate \<Rightarrow> WorkAssignment list \<Rightarrow> bool" where
  "hasConflict eid newStart newEnd existingAssignments =
     list_ex (\<lambda>assignment.
        employeeId assignment = eid
        \<and> status assignment = scheduled
        \<and> ((js_ge newStart (startTime assignment) \<and> js_lt newStart (endTime assignment))
           \<or> (js_gt newEnd (startTime assignment) \<and> js_le newEnd (endTime assignment))
           \<or> (js_le newStart (startTime assignment) \<and> js_ge newEnd (endTime assignment))))
       existingAssignments"

text \<open>\<open>addWorkAssignment\<close>: the identifier and the clock are inputs of the model.\<close>

definition addWorkAssignment ::
  "StorageData \<Rightarrow> string \<Rightarrow> jsdate \<Rightarrow> WorkAssignment \<Rightarrow> WorkAssignment \<times> StorageData" where
  "addWorkAssignment storage newId now assignment =
     (let newAssignment = assignment\<lparr> wa_id := newId, createdAt := now, updatedAt := now \<rparr>
      in (newAssignment,
          storage\<lparr> workAssignments := workAssignments storage @ [newAssignment] \<rparr>))"

definition createAssignment ::
  "StorageData \<Rightarrow> string \<Rightarrow> jsdate \<Rightarrow> CreateWorkAssignmentRequest
     \<Rightarrow> error + (WorkAssignment \<times> StorageData)" where
  "createAssignment storage newId now body =
     (case (req_startTime body, req_endTime body) of
        (Some newStart, Some newEnd) \<Rightarrow>
          if req_employeeId body = [] \<or> req_clientName body = [] \<or> req_clientPhone body = []
             \<or> req_clientAddress body = [] \<or> req_workType body = []
          then Inl (AppError ''Missing required fields'' 400)
          else if req_workType body \<notin> set validWorkTypes
          then Inl (AppError ''Invalid work type'' 400)
          else (case getEmployeeById storage (req_employeeId body) of
                  None \<Rightarrow> Inl (AppError ''Employee not found'' 404)
                | Some employee \<Rightarrow>
                    if hasConflict (req_employeeId body) newStart newEnd (workAssignments storage)
                    then Inl (AppError ''Time slot is already occupied'' 409)
                    else Inr (addWorkAssignment storage newId now
                           \<lparr> wa_id = [],
                             employeeId = req_employeeId body,
                             clientName = req_clientName body,
                             clientPhone = req_clientPhone body,
                             clientAddress = req_clientAddress body,
                             workType = req_workType body,
                             startTime = newStart,
                             endTime = newEnd,
                             comment = req_comment body,
                             status = scheduled,
                             createdAt = now,
                             updatedAt = now \<rparr>))
      | _ \<Rightarrow> Inl (AppError ''Missing required fields'' 400))"

text \<open>The body of \<open>PUT /assignments/:id\<close>, a \<open>Partial<WorkAssignment>\<close>: a field is
  \<open>None\<close> when the body does not hold it.\<close>

record AssignmentUpdates =
  u_id :: "string option"
  u_employeeId :: "string option"
  u_clientName :: "string option"
  u_clientPhone :: "string option"
  u_clientAddress :: "string option"
  u_workType :: "string option"
  u_startTime :: "jsdate option"
  u_endTime :: "jsdate option"
  u_comment :: "string option"
  u_status :: "Status option"
  u_createdAt :: "jsdate option"

definition orElse :: "'a option \<Rightarrow> 'a \<Rightarrow> 'a" where
  "orElse u old = (case u of None \<Rightarrow> old | Some v \<Rightarrow> v)"

text \<open>\<open>{ ...old, ...updates, updatedAt: now }\<close>\<close>

definition mergeUpdates :: "WorkAssignment \<Rightarrow> AssignmentUpdates \<Rightarrow> jsdate \<Rightarrow> WorkAssignment" where
  "mergeUpdates old u now =
     \<lparr> wa_id = orElse (u_id u) (wa_id old),
       employeeId = orElse (u_employeeId u) (employeeId old),
       clientName = orElse (u_clientName u) (clientName old),
       clientPhone = orElse (u_clientPhone u) (clientPhone old),
       clientAddress = orElse (u_clientAddress u) (clientAddress old),
       workType = orElse (u_workType u) (workType old),
       startTime = orElse (u_startTime u) (startTime old),
       endTime = orElse (u_endTime u) (endTime old),
       comment = (case u_comment u of None \<Rightarrow> comment old | Some c \<Rightarrow> Some c),
       status = orElse (u_status u) (status old),
       createdAt = orElse (u_createdAt u) (createdAt old),
       updatedAt = now \<rparr>"

text \<open>\<open>findIndex\<close> and the replacement at the index found.\<close>

fun updateFirst ::
  "string \<Rightarrow> AssignmentUpdates \<Rightarrow> jsdate \<Rightarrow> WorkAssignment list
     \<Rightarrow> (WorkAssignment \<times> WorkAssignment list) option" where
  "updateFirst ident u now [] = None"
| "updateFirst ident u now (a # rest) =
     (if wa_id a = ident then Some (mergeUpdates a u now, mergeUpdates a u now # rest)
      else (case updateFirst ident u now rest of
              None \<Rightarrow> None
            | Some (a', rest') \<Rightarrow> Some (a', a # rest')))"

definition updateWorkAssignment ::
  "StorageData \<Rightarrow> jsdate \<Rightarrow> string \<Rightarrow> AssignmentUpdates \<Rightarrow> (WorkAssignment \<times> StorageData) option" where
  "updateWorkAssignment storage now ident u =
     (case updateFirst ident u now (workAssignments storage) of
        None \<Rightarrow> None
      | Some (a', assignments') \<Rightarrow> Some (a', storage\<lparr> workAssignments := assignments' \<rparr>))"

definition updateAssignment ::
  "StorageData \<Rightarrow> jsdate \<Rightarrow> string \<Rightarrow> AssignmentUpdates option
     \<Rightarrow> error + (WorkAssignment \<times> StorageData)" where
  "updateAssignment storage now ident updates =
     (if ident = [] then Inl (AppError ''Assignment ID is required'' 400)
      else (case updates of
              None \<Rightarrow> Inl (AppError ''Updates are required'' 400)
            | Some u \<Rightarrow>
                (case updateWorkAssignment storage now ident u of
                   None \<Rightarrow> Inl (AppError ''Work assignment not found'' 404)
                 | Some r \<Rightarrow> Inr r)))"

section \<open>The start times of one day's slots\<close>

text \<open>The instants \<open>cur, cur + step, ...\<close> that lie before \<open>we\<close>: what the loop visits
  when the step is positive.\<close>

function slotStarts :: "int \<Rightarrow> int \<Rightarrow> int \<Rightarrow> int list" where
  "slotStarts cur we step =
     (if 0 < step \<and> cur < we then cur # slotStarts (cur + step) we step else [])"
  by pat_completeness auto
termination
  by (relation "measure (\<lambda>(cur, we, step). nat (we - cur))") auto

declare slotStarts.simps [simp del]

section \<open>Example data\<close>

definition exMonday :: jsdate where
  "exMonday = TimeValue 1705276800000"

definition exEmployee :: Employee where
  "exEmployee = \<lparr> emp_id = ''e1'', emp_name = ''Ann'', emp_email = ''ann@example.com'',
                  workHours = \<lparr> wh_start = ''09:00'', wh_end = ''17:00'' \<rparr> \<rparr>"

definition exSettings :: CalendarSettings where
  "exSettings = \<lparr> workStartTime = ''08:00'', workEndTime = ''10:00'', slotDuration = 60,
                  adminEmail = ''admin@company.com'' \<rparr>"

definition exAssignment :: WorkAssignment where
  "exAssignment = \<lparr> wa_id = ''a1'', employeeId = ''e1'', clientName = ''John Client'',
           clientPhone = ''555-1234'', clientAddress = ''123 Main St'', workType = ''measurement'',
           startTime = TimeValue 1705309200000, endTime = TimeValue 1705312800000,
           comment = None, status = scheduled,
           createdAt = TimeValue 1704880800000, updatedAt = TimeValue 1704880800000 \<rparr>"

definition exStorage :: StorageData where
  "exStorage = \<lparr> employees = [exEmployee], workAssignments = [exAssignment],
                  settings = exSettings \<rparr>"

definition exRequest :: CreateWorkAssignmentRequest where
  "exRequest = \<lparr> req_employeeId = ''e1'', req_clientName = ''Jane Client'',
                  req_clientPhone = ''555-5678'', req_clientAddress = ''456 Oak Ave'',
                  req_workType = ''maintenance'',
                  req_startTime = Some (TimeValue 1705307400000),
                  req_endTime = Some (TimeValue 1705311000000),
                  req_comment = None \<rparr>"

definition exShort :: WorkAssignment where
  "exShort = exAssignment\<lparr> wa_id := ''a3'', startTime := TimeValue 1705307400000,
                            endTime := TimeValue 1705308300000 \<rparr>"

definition exTuesday :: jsdate where
  "exTuesday = TimeValue 1705363200000"

definition exOvernight :: WorkAssignment where
  "exOvernight = exAssignment\<lparr> wa_id := ''a4'', startTime := TimeValue 1705359600000,
                                endTime := TimeValue 1705399200000 \<rparr>"

definition exLater :: WorkAssignment where
  "exLater = exAssignment\<lparr> wa_id := ''a2'', startTime := TimeValue 1705312800000,
                            endTime := TimeValue 1705316400000 \<rparr>"

definition exStorage2 :: StorageData where
  "exStorage2 = \<lparr> employees = [exEmployee], workAssignments = [exAssignment, exLater],
                   settings = exSettings \<rparr>"

definition exUpdates :: AssignmentUpdates where
  "exUpdates = \<lparr> u_id = None, u_employeeId = None, u_clientName = None, u_clientPhone = None,
                  u_clientAddress = None, u_workType = None,
                  u_startTime = Some (TimeValue 1705311000000),
                  u_endTime = Some (TimeValue 1705314600000),
                  u_comment = None, u_status = None, u_createdAt = None \<rparr>"

definition exRequest2 :: CreateWorkAssignmentRequest where
  "exRequest2 = exRequest\<lparr> req_startTime := Some (TimeValue 1705311000000),
                            req_endTime := Some (TimeValue 1705314600000) \<rparr>"

definition exCancelled :: WorkAssignment where
  "exCancelled = exAssignment\<lparr> wa_id := ''c1'', status := cancelled \<rparr>"

definition exOtherEmployee :: WorkAssignment where
  "exOtherEmployee = exAssignment\<lparr> wa_id := ''b1'', employeeId := ''e2'',
                                    startTime := TimeValue 1705305600000 \<rparr>"

definition exPrevDay :: WorkAssignment where
  "exPrevDay = exAssignment\<lparr> wa_id := ''a6'', startTime := TimeValue 1705273200000 \<rparr>"

section \<open>The slot loop in closed form\<close>

lemma slotLoop_closed:
  "0 < d \<Longrightarrow>
   slotLoop d (TimeValue we) das eid (TimeValue cur) acc =
     Some (acc @ map (\<lambda>t. makeSlot d das eid (TimeValue t)) (slotStarts cur we (d * msPerMinute)))"
proof (induction cur we "d * msPerMinute" arbitrary: acc rule: slotStarts.induct)
  case (1 cur we)
  have step: "0 < d * msPerMinute" using 1(2) by (simp add: msPerMinute_def)
  show ?case
  proof (cases "cur < we")
    case True
    have "slotLoop d (TimeValue we) das eid (TimeValue cur) acc =
          slotLoop d (TimeValue we) das eid (TimeValue (cur + d * msPerMinute))
            (acc @ [makeSlot d das eid (TimeValue cur)])"
      using True by (subst slotLoop.simps) simp
    also have "\<dots> = Some ((acc @ [makeSlot d das eid (TimeValue cur)]) @
        map (\<lambda>t. makeSlot d das eid (TimeValue t)) (slotStarts (cur + d * msPerMinute) we (d * msPerMinute)))"
      using 1(1)[OF _ 1(2)] step True by simp
    finally show ?thesis
      using True step by (simp add: slotStarts.simps [of cur])
  next
    case False
    then show ?thesis
      by (subst slotLoop.simps, subst slotStarts.simps) simp
  qed
qed

lemma slotLoop_empty:
  "\<not> js_lt cur we \<Longrightarrow> slotLoop d we das eid cur acc = Some acc"
  by (subst slotLoop.simps) simp

lemma slotStarts_nth:
  "k < length (slotStarts cur we step) \<Longrightarrow> slotStarts cur we step ! k = cur + int k * step"
proof (induction cur we step arbitrary: k rule: slotStarts.induct)
  case (1 cur we step)
  show ?case
  proof (cases "0 < step \<and> cur < we")
    case True
    then have eq: "slotStarts cur we step = cur # slotStarts (cur + step) we step"
      by (subst slotStarts.simps) simp
    show ?thesis
    proof (cases k)
      case 0
      then show ?thesis by (simp add: eq)
    next
      case (Suc j)
      with 1(2) eq have "j < length (slotStarts (cur + step) we step)" by simp
      from 1(1)[OF True this] show ?thesis by (simp add: eq Suc algebra_simps)
    qed
  next
    case False
    then have "slotStarts cur we step = []" by (subst slotStarts.simps) simp
    with 1(2) show ?thesis by simp
  qed
qed

lemma slotStarts_bounds:
  "0 < step \<Longrightarrow> cur < we \<Longrightarrow>
   slotStarts cur we step \<noteq> []
   \<and> cur + (int (length (slotStarts cur we step)) - 1) * step < we
   \<and> we \<le> cur + int (length (slotStarts cur we step)) * step"
proof (induction cur we step rule: slotStarts.induct)
  case (1 cur we step)
  have eq: "slotStarts cur we step = cur # slotStarts (cur + step) we step"
    using 1(2,3) by (subst slotStarts.simps) simp
  show ?case
  proof (cases "cur + step < we")
    case True
    from 1(1)[OF _ 1(2) True] 1(2,3)
    show ?thesis by (simp add: eq algebra_simps)
  next
    case False
    then have "slotStarts (cur + step) we step = []" by (subst slotStarts.simps) simp
    then show ?thesis using False 1(2,3) by (simp add: eq)
  qed
qed

lemma makeSlot_start_end:
  "ts_start (makeSlot d das eid (TimeValue t)) = TimeValue t"
  "ts_end (makeSlot d das eid (TimeValue t)) = TimeValue (t + d * msPerMinute)"
  by (simp_all add: makeSlot_def Let_def)

text \<open>
  Claim C3. When the work window \<open>[ws, we)\<close> is not empty and the slot duration is
  positive, the generator returns a non-empty list of slots whose start times are
  \<open>ws, ws + d, ws + 2d, ...\<close> (\<open>d\<close> minutes apart, each slot ending where the
  next one starts, so without gaps), each slot ends \<open>d\<close> minutes after its start, the
  last slot starts strictly before \<open>we\<close>, the slots reach \<open>we\<close>, and when the window
  is not a multiple of \<open>d\<close> the last slot ends after \<open>we\<close>. When the window is empty
  or inverted the result is the empty list.
\<close>

theorem slots_partition_window:
  assumes ws: "anchor tz date (workStartTime st) = TimeValue ws"
      and we: "anchor tz date (workEndTime st) = TimeValue we"
  shows "(ws < we \<longrightarrow> 0 < slotDuration st \<longrightarrow>
           (\<exists>slots. generateTimeSlotsForDay tz date employee st assignments = Some slots
              \<and> slots \<noteq> []
              \<and> (\<forall>k < length slots.
                    ts_start (slots ! k) = TimeValue (ws + int k * (slotDuration st * msPerMinute))
                  \<and> ts_end (slots ! k) = TimeValue (ws + (int k + 1) * (slotDuration st * msPerMinute)))
              \<and> ws + (int (length slots) - 1) * (slotDuration st * msPerMinute) < we
              \<and> we \<le> ws + int (length slots) * (slotDuration st * msPerMinute)
              \<and> (\<not> (slotDuration st * msPerMinute) dvd (we - ws) \<longrightarrow>
                    we < ws + int (length slots) * (slotDuration st * msPerMinute))))
       \<and> (we \<le> ws \<longrightarrow> generateTimeSlotsForDay tz date employee st assignments = Some [])"
proof (intro conjI impI)
  assume lt: "ws < we" and pos: "0 < slotDuration st"
  define step where "step = slotDuration st * msPerMinute"
  define das where "das = dayAssignmentsOf tz date employee assignments"
  define starts where "starts = slotStarts ws we step"
  define slots where "slots = map (\<lambda>t. makeSlot (slotDuration st) das (emp_id employee) (TimeValue t)) starts"
  have step_pos: "0 < step" using pos by (simp add: step_def msPerMinute_def)
  have gen: "generateTimeSlotsForDay tz date employee st assignments = Some slots"
    using slotLoop_closed [OF pos, of we das "emp_id employee" ws "[]"]
    by (simp add: generateTimeSlotsForDay_def ws we das_def slots_def starts_def step_def)
  have len: "length slots = length starts" by (simp add: slots_def)
  have b: "starts \<noteq> []" "ws + (int (length starts) - 1) * step < we"
          "we \<le> ws + int (length starts) * step"
    using slotStarts_bounds [OF step_pos lt] by (simp_all add: starts_def)
  have nth: "\<forall>k < length slots.
               ts_start (slots ! k) = TimeValue (ws + int k * step)
             \<and> ts_end (slots ! k) = TimeValue (ws + (int k + 1) * step)"
  proof (intro allI impI)
    fix k assume k: "k < length slots"
    then have "starts ! k = ws + int k * step"
      using slotStarts_nth [of k ws we step] by (simp add: len starts_def)
    then show "ts_start (slots ! k) = TimeValue (ws + int k * step)
             \<and> ts_end (slots ! k) = TimeValue (ws + (int k + 1) * step)"
      using k by (simp add: slots_def makeSlot_start_end step_def algebra_simps)
  qed
  have strict: "\<not> step dvd (we - ws) \<longrightarrow> we < ws + int (length slots) * step"
  proof
    assume nd: "\<not> step dvd (we - ws)"
    have "we \<noteq> ws + int (length slots) * step"
    proof
      assume "we = ws + int (length slots) * step"
      then have "we - ws = step * int (length slots)" by (simp add: algebra_simps)
      then have "step dvd (we - ws)" by simp
      with nd show False by contradiction
    qed
    with b(3) show "we < ws + int (length slots) * step" by (simp add: len)
  qed
  show "\<exists>slots. generateTimeSlotsForDay tz date employee st assignments = Some slots
              \<and> slots \<noteq> []
              \<and> (\<forall>k < length slots.
                    ts_start (slots ! k) = TimeValue (ws + int k * (slotDuration st * msPerMinute))
                  \<and> ts_end (slots ! k) = TimeValue (ws + (int k + 1) * (slotDuration st * msPerMinute)))
              \<and> ws + (int (length slots) - 1) * (slotDuration st * msPerMinute) < we
              \<and> we \<le> ws + int (length slots) * (slotDuration st * msPerMinute)
              \<and> (\<not> (slotDuration st * msPerMinute) dvd (we - ws) \<longrightarrow>
                    we < ws + int (length slots) * (slotDuration st * msPerMinute))"
    using gen b nth strict unfolding step_def [symmetric] len [symmetric]
    by (intro exI [of _ slots]) (simp add: slots_def)
next
  assume "we \<le> ws"
  then show "generateTimeSlotsForDay tz date employee st assignments = Some []"
    by (simp add: generateTimeSlotsForDay_def ws we slotLoop_empty)
qed

theorem slots_partition_window_witness:
  "anchor 0 (TimeValue 1705276800000) ''08:00'' = TimeValue 1705305600000
   \<and> anchor 0 (TimeValue 1705276800000) ''09:30'' = TimeValue 1705311000000
   \<and> (\<exists>slots. generateTimeSlotsForDay 0 (TimeValue 1705276800000)
                 \<lparr>emp_id = ''e1'', emp_name = ''Ann'', emp_email = ''ann@example.com'',
                   workHours = \<lparr>wh_start = ''08:00'', wh_end = ''09:30''\<rparr>\<rparr>
                 \<lparr>workStartTime = ''08:00'', workEndTime = ''09:30'', slotDuration = 60,
                   adminEmail = ''admin@company.com''\<rparr> [] = Some slots
        \<and> slots \<noteq> []
        \<and> (\<forall>k < length slots.
               ts_start (slots ! k) = TimeValue (1705305600000 + int k * 3600000)
             \<and> ts_end (slots ! k) = TimeValue (1705305600000 + (int k + 1) * 3600000))
        \<and> 1705305600000 + (int (length slots) - 1) * 3600000 < 1705311000000
        \<and> 1705311000000 < 1705305600000 + int (length slots) * 3600000)"
proof -
  have h1: "anchor 0 (TimeValue 1705276800000)
              (workStartTime \<lparr>workStartTime = ''08:00'', workEndTime = ''09:30'', slotDuration = 60,
                   adminEmail = ''admin@company.com''\<rparr>) = TimeValue 1705305600000"
    by (simp add: anchor_def Number_def digit_of_def elem_or_zero_def localDay_def
          msPerDay_def msPerHour_def msPerMinute_def)
  have h2: "anchor 0 (TimeValue 1705276800000)
              (workEndTime \<lparr>workStartTime = ''08:00'', workEndTime = ''09:30'', slotDuration = 60,
                   adminEmail = ''admin@company.com''\<rparr>) = TimeValue 1705311000000"
    by (simp add: anchor_def Number_def digit_of_def elem_or_zero_def localDay_def
          msPerDay_def msPerHour_def msPerMinute_def)
  show ?thesis
    using slots_partition_window [OF h1 h2,
        of "\<lparr>emp_id = ''e1'', emp_name = ''Ann'', emp_email = ''ann@example.com'',
                   workHours = \<lparr>wh_start = ''08:00'', wh_end = ''09:30''\<rparr>\<rparr>" "[]"] h1 h2
    by (simp add: msPerMinute_def) blast
qed

lemma slotLoop_result:
  assumes "slotLoop d we das eid cur acc = Some slots"
  shows "\<exists>ts. slots = acc @ map (makeSlot d das eid) ts"
proof (rule slotLoop.raw_induct
    [where P = "\<lambda>d we das eid cur acc slots. \<exists>ts. slots = acc @ map (makeSlot d das eid) ts",
     OF _ assms])
  fix loop d we das eid cur acc slots
  assume IH: "\<And>d we das eid cur acc slots. loop d we das eid cur acc = Some slots \<Longrightarrow>
                \<exists>ts. slots = acc @ map (makeSlot d das eid) ts"
     and step: "(if js_lt cur we
                 then loop d we das eid (addMinutes cur d) (acc @ [makeSlot d das eid cur])
                 else Some acc) = Some slots"
  show "\<exists>ts. slots = acc @ map (makeSlot d das eid) ts"
  proof (cases "js_lt cur we")
    case True
    with step have "loop d we das eid (addMinutes cur d) (acc @ [makeSlot d das eid cur]) = Some slots"
      by simp
    from IH [OF this] obtain ts
      where "slots = (acc @ [makeSlot d das eid cur]) @ map (makeSlot d das eid) ts"
      by blast
    then have "slots = acc @ map (makeSlot d das eid) (cur # ts)" by simp
    then show ?thesis by blast
  next
    case False
    with step have "slots = acc @ map (makeSlot d das eid) []" by simp
    then show ?thesis by blast
  qed
qed

lemma slotLoop_returns:
  "0 < d \<Longrightarrow> slotLoop d we das eid cur acc \<noteq> None"
proof (cases "js_lt cur we")
  case False
  then show ?thesis by (simp add: slotLoop_empty)
next
  case True
  assume pos: "0 < d"
  from True obtain c w where "cur = TimeValue c" "we = TimeValue w"
    by (cases cur; cases we) auto
  then show ?thesis using slotLoop_closed [OF pos] by simp
qed

lemmas eval_simps =
  generateTimeSlotsForDay_def dayAssignmentsOf_def anchor_def Number_def digit_of_def
  elem_or_zero_def localDay_def msPerDay_def msPerHour_def msPerMinute_def
  slotLoop_closed slotStarts.simps makeSlot_def slotHasConflict_def hasConflict_def
  exMonday_def exEmployee_def exSettings_def exAssignment_def

lemma makeSlot_sel:
  "ts_start (makeSlot d das eid t) = t"
  "ts_end (makeSlot d das eid t) = addMinutes t d"
  "available (makeSlot d das eid t) = (\<not> slotHasConflict t (addMinutes t d) das)"
  "assignmentId (makeSlot d das eid t) =
     (if slotHasConflict t (addMinutes t d) das
      then map_option wa_id (find (\<lambda>a. js_ge t (startTime a) \<and> js_lt t (endTime a)) das)
      else None)"
  "ts_employeeId (makeSlot d das eid t) = eid"
  by (simp_all add: makeSlot_def Let_def)

lemma generate_slots_shape:
  assumes "generateTimeSlotsForDay tz date employee st assignments = Some slots"
      and "sl \<in> set slots"
  shows "\<exists>t. sl = makeSlot (slotDuration st) (dayAssignmentsOf tz date employee assignments)
                    (emp_id employee) t"
proof -
  from assms(1) obtain ts
    where "slots = [] @ map (makeSlot (slotDuration st)
              (dayAssignmentsOf tz date employee assignments) (emp_id employee)) ts"
    unfolding generateTimeSlotsForDay_def Let_def by (blast dest: slotLoop_result)
  with assms(2) show ?thesis by auto
qed

lemma generate_returns:
  "0 < slotDuration st \<Longrightarrow> generateTimeSlotsForDay tz date employee st assignments \<noteq> None"
  by (simp add: generateTimeSlotsForDay_def Let_def slotLoop_returns)

lemma dayAssignmentsOf_filter:
  "(\<And>a. employeeId a = emp_id employee \<Longrightarrow> toDateString tz (startTime a) = toDateString tz date
        \<Longrightarrow> status a = scheduled \<Longrightarrow> P a) \<Longrightarrow>
   dayAssignmentsOf tz date employee (filter P assignments) =
   dayAssignmentsOf tz date employee assignments"
  unfolding dayAssignmentsOf_def filter_filter
  by (rule filter_cong) auto

lemma slotHasConflict_Nil: "\<not> slotHasConflict t e []"
  by (simp add: slotHasConflict_def)

lemma generate_all_available:
  assumes "dayAssignmentsOf tz date employee assignments = []"
      and "generateTimeSlotsForDay tz date employee st assignments = Some slots"
      and "sl \<in> set slots"
  shows "available sl \<and> assignmentId sl = None"
  using generate_slots_shape [OF assms(2,3)]
  by (auto simp: assms(1) makeSlot_sel slotHasConflict_Nil)

section \<open>The overlap test\<close>

text \<open>
  Claim C4. For non-degenerate intervals \<open>[s, e)\<close> and \<open>[a_s, a_e)\<close>, the three-clause
  test of the slot generator and the one of the creation-time check (for an assignment of
  the same employee that is \<open>scheduled\<close>) both hold exactly when \<open>s < a_e\<close> and
  \<open>e > a_s\<close>.
\<close>

theorem overlap_three_clause_iff:
  "s < e \<longrightarrow> a_s < a_e \<longrightarrow> startTime a = TimeValue a_s \<longrightarrow> endTime a = TimeValue a_e \<longrightarrow>
     (slotHasConflict (TimeValue s) (TimeValue e) [a] \<longleftrightarrow> (s < a_e \<and> e > a_s))
     \<and> (employeeId a = eid \<longrightarrow> status a = scheduled \<longrightarrow>
          (hasConflict eid (TimeValue s) (TimeValue e) [a] \<longleftrightarrow> (s < a_e \<and> e > a_s)))"
  by (auto simp: slotHasConflict_def hasConflict_def)

theorem overlap_three_clause_iff_witness:
  "(1705307400000::int) < 1705311000000 \<and> (1705309200000::int) < 1705312800000
   \<and> slotHasConflict (TimeValue 1705307400000) (TimeValue 1705311000000) [exAssignment]
   \<and> hasConflict ''e1'' (TimeValue 1705307400000) (TimeValue 1705311000000) [exAssignment]"
  using overlap_three_clause_iff [of 1705307400000 1705311000000 1705309200000 1705312800000 exAssignment "''e1''"]
  by (simp add: exAssignment_def)

lemma hasConflict_iff:
  "hasConflict eid (TimeValue s) (TimeValue e) existing \<longleftrightarrow>
     (\<exists>a \<in> set existing. employeeId a = eid \<and> status a = scheduled
        \<and> (\<exists>a_s a_e. startTime a = TimeValue a_s \<and> endTime a = TimeValue a_e
              \<and> ((a_s \<le> s \<and> s < a_e) \<or> (a_s < e \<and> e \<le> a_e) \<or> (s \<le> a_s \<and> a_e \<le> e))))"
proof -
  have one: "\<And>a. ((js_ge (TimeValue s) (startTime a) \<and> js_lt (TimeValue s) (endTime a))
           \<or> (js_gt (TimeValue e) (startTime a) \<and> js_le (TimeValue e) (endTime a))
           \<or> (js_le (TimeValue s) (startTime a) \<and> js_ge (TimeValue e) (endTime a)))
       \<longleftrightarrow> (\<exists>a_s a_e. startTime a = TimeValue a_s \<and> endTime a = TimeValue a_e
              \<and> ((a_s \<le> s \<and> s < a_e) \<or> (a_s < e \<and> e \<le> a_e) \<or> (s \<le> a_s \<and> a_e \<le> e)))"
  proof -
    fix a show "?thesis a"
      by (cases "startTime a"; cases "endTime a") auto
  qed
  show ?thesis
    unfolding hasConflict_def list_ex_iff one by blast
qed

lemma createAssignment_conflict:
  assumes "req_startTime body = Some newStart" "req_endTime body = Some newEnd"
      and "hasConflict (req_employeeId body) newStart newEnd (workAssignments storage)"
  shows "createAssignment storage newId now body \<noteq> Inr r"
  using assms by (auto simp: createAssignment_def split: option.splits)

text \<open>
  Claim C2. The creation-time check reports a conflict exactly when some existing
  assignment of the same employee with status \<open>scheduled\<close> satisfies one of the three
  clauses against the proposed interval, and a reported conflict blocks the creation. An
  interval that only shares a boundary instant with the existing one is no conflict; an
  interval that overlaps it (partially, or by containment) is one.
\<close>

theorem creation_conflict_rule:
  "(hasConflict eid (TimeValue s) (TimeValue e) existing \<longleftrightarrow>
     (\<exists>a \<in> set existing. employeeId a = eid \<and> status a = scheduled
        \<and> (\<exists>a_s a_e. startTime a = TimeValue a_s \<and> endTime a = TimeValue a_e
              \<and> ((a_s \<le> s \<and> s < a_e) \<or> (a_s < e \<and> e \<le> a_e) \<or> (s \<le> a_s \<and> a_e \<le> e)))))
   \<and> (req_startTime body = Some newStart \<longrightarrow> req_endTime body = Some newEnd \<longrightarrow>
        hasConflict (req_employeeId body) newStart newEnd (workAssignments storage) \<longrightarrow>
        (\<forall>r. createAssignment storage newId now body \<noteq> Inr r))
   \<and> (s < e \<longrightarrow> a_s < a_e \<longrightarrow> startTime a = TimeValue a_s \<longrightarrow> endTime a = TimeValue a_e \<longrightarrow>
        (s = a_e \<or> e = a_s) \<longrightarrow> \<not> hasConflict eid (TimeValue s) (TimeValue e) [a])
   \<and> (s < e \<longrightarrow> a_s < a_e \<longrightarrow> startTime a = TimeValue a_s \<longrightarrow> endTime a = TimeValue a_e \<longrightarrow>
        employeeId a = eid \<longrightarrow> status a = scheduled \<longrightarrow> s < a_e \<longrightarrow> a_s < e \<longrightarrow>
        hasConflict eid (TimeValue s) (TimeValue e) [a])"
proof (intro conjI)
  show "hasConflict eid (TimeValue s) (TimeValue e) existing \<longleftrightarrow>
     (\<exists>a \<in> set existing. employeeId a = eid \<and> status a = scheduled
        \<and> (\<exists>a_s a_e. startTime a = TimeValue a_s \<and> endTime a = TimeValue a_e
              \<and> ((a_s \<le> s \<and> s < a_e) \<or> (a_s < e \<and> e \<le> a_e) \<or> (s \<le> a_s \<and> a_e \<le> e))))"
    by (rule hasConflict_iff)
  show "req_startTime body = Some newStart \<longrightarrow> req_endTime body = Some newEnd \<longrightarrow>
        hasConflict (req_employeeId body) newStart newEnd (workAssignments storage) \<longrightarrow>
        (\<forall>r. createAssignment storage newId now body \<noteq> Inr r)"
    using createAssignment_conflict by blast
  show "s < e \<longrightarrow> a_s < a_e \<longrightarrow> startTime a = TimeValue a_s \<longrightarrow> endTime a = TimeValue a_e \<longrightarrow>
        (s = a_e \<or> e = a_s) \<longrightarrow> \<not> hasConflict eid (TimeValue s) (TimeValue e) [a]"
    by (auto simp: hasConflict_def)
  show "s < e \<longrightarrow> a_s < a_e \<longrightarrow> startTime a = TimeValue a_s \<longrightarrow> endTime a = TimeValue a_e \<longrightarrow>
        employeeId a = eid \<longrightarrow> status a = scheduled \<longrightarrow> s < a_e \<longrightarrow> a_s < e \<longrightarrow>
        hasConflict eid (TimeValue s) (TimeValue e) [a]"
    by (auto simp: hasConflict_def)
qed

theorem creation_conflict_rule_witness:
  "hasConflict ''e1'' (TimeValue 1705307400000) (TimeValue 1705311000000) [exAssignment]
   \<and> hasConflict ''e1'' (TimeValue 1705305600000) (TimeValue 1705316400000) [exAssignment]
   \<and> \<not> hasConflict ''e1'' (TimeValue 1705312800000) (TimeValue 1705316400000) [exAssignment]
   \<and> createAssignment exStorage ''a2'' (TimeValue 1705000000000) exRequest =
        Inl (AppError ''Time slot is already occupied'' 409)"
  using creation_conflict_rule [where eid = "''e1''" and s = 1705307400000 and e = 1705311000000
          and existing = "[exAssignment]" and body = exRequest
          and newStart = "TimeValue 1705307400000" and newEnd = "TimeValue 1705311000000"
          and storage = exStorage and newId = "''a2''" and now = "TimeValue 1705000000000"
          and a = exAssignment and a_s = 1705309200000 and a_e = 1705312800000]
        creation_conflict_rule [where eid = "''e1''" and s = 1705312800000 and e = 1705316400000
          and existing = "[exAssignment]" and body = exRequest
          and newStart = "TimeValue 1705307400000" and newEnd = "TimeValue 1705311000000"
          and storage = exStorage and newId = "''a2''" and now = "TimeValue 1705000000000"
          and a = exAssignment and a_s = 1705309200000 and a_e = 1705312800000]
  by (simp add: exAssignment_def exStorage_def exRequest_def exEmployee_def hasConflict_def
        createAssignment_def validWorkTypes_def getEmployeeById_def)

section \<open>Status and day scoping\<close>

text \<open>
  Claim C5. Assignments that are not \<open>scheduled\<close> take no part: the generator and the
  creation-time check give the same result on the list with every \<open>cancelled\<close> and
  \<open>completed\<close> assignment removed; when no assignment is \<open>scheduled\<close>, no booking is
  blocked, every generated slot is available, and the generator returns for a positive
  duration.
\<close>

theorem unscheduled_never_block:
  "generateTimeSlotsForDay tz date employee st assignments =
     generateTimeSlotsForDay tz date employee st (filter (\<lambda>a. status a = scheduled) assignments)
   \<and> hasConflict eid newStart newEnd assignments =
       hasConflict eid newStart newEnd (filter (\<lambda>a. status a = scheduled) assignments)
   \<and> ((\<forall>a \<in> set assignments. status a = cancelled \<or> status a = completed) \<longrightarrow>
        \<not> hasConflict eid newStart newEnd assignments
        \<and> (\<forall>slots. generateTimeSlotsForDay tz date employee st assignments = Some slots \<longrightarrow>
              (\<forall>sl \<in> set slots. available sl \<and> assignmentId sl = None))
        \<and> (0 < slotDuration st \<longrightarrow>
              generateTimeSlotsForDay tz date employee st assignments \<noteq> None))"
proof (intro conjI impI)
  show "generateTimeSlotsForDay tz date employee st assignments =
     generateTimeSlotsForDay tz date employee st (filter (\<lambda>a. status a = scheduled) assignments)"
    by (simp add: generateTimeSlotsForDay_def dayAssignmentsOf_filter)
  show "hasConflict eid newStart newEnd assignments =
       hasConflict eid newStart newEnd (filter (\<lambda>a. status a = scheduled) assignments)"
    by (auto simp: hasConflict_def list_ex_iff)
next
  assume un: "\<forall>a \<in> set assignments. status a = cancelled \<or> status a = completed"
  then show "\<not> hasConflict eid newStart newEnd assignments"
    by (auto simp: hasConflict_def list_ex_iff)
  have "dayAssignmentsOf tz date employee assignments = []"
    using un by (auto simp: dayAssignmentsOf_def filter_empty_conv)
  then show "\<forall>slots. generateTimeSlotsForDay tz date employee st assignments = Some slots \<longrightarrow>
              (\<forall>sl \<in> set slots. available sl \<and> assignmentId sl = None)"
    using generate_all_available by blast
next
  assume "0 < slotDuration st"
  then show "generateTimeSlotsForDay tz date employee st assignments \<noteq> None"
    by (rule generate_returns)
qed

theorem unscheduled_never_block_witness:
  "status (exAssignment\<lparr>status := cancelled\<rparr>) = cancelled
   \<and> \<not> hasConflict ''e1'' (TimeValue 1705309200000) (TimeValue 1705312800000)
         [exAssignment\<lparr>status := cancelled\<rparr>]
   \<and> generateTimeSlotsForDay 0 exMonday exEmployee exSettings [exAssignment\<lparr>status := cancelled\<rparr>] =
       Some [\<lparr> ts_start = TimeValue 1705305600000, ts_end = TimeValue 1705309200000,
                available = True, assignmentId = None, ts_employeeId = ''e1'' \<rparr>,
             \<lparr> ts_start = TimeValue 1705309200000, ts_end = TimeValue 1705312800000,
                available = True, assignmentId = None, ts_employeeId = ''e1'' \<rparr>]
   \<and> generateTimeSlotsForDay 0 exMonday exEmployee exSettings [exAssignment] =
       Some [\<lparr> ts_start = TimeValue 1705305600000, ts_end = TimeValue 1705309200000,
                available = True, assignmentId = None, ts_employeeId = ''e1'' \<rparr>,
             \<lparr> ts_start = TimeValue 1705309200000, ts_end = TimeValue 1705312800000,
                available = False, assignmentId = Some ''a1'', ts_employeeId = ''e1'' \<rparr>]"
  using unscheduled_never_block [of 0 exMonday exEmployee exSettings
           "[exAssignment\<lparr>status := cancelled\<rparr>]" "''e1''"
           "TimeValue 1705309200000" "TimeValue 1705312800000"]
  by (simp add: eval_simps)

text \<open>
  Claim C9. In every generated slot: the slot is available exactly when no assignment of
  that employee that starts on the queried day and is \<open>scheduled\<close> meets it under the
  three clauses; an available slot carries no assignment id; an unavailable slot carries
  the id of the first assignment, in list order, among those of that employee that start
  on the queried day and are \<open>scheduled\<close>, whose interval holds the slot's start, and no
  id when there is no such assignment (the slot is then occupied through one of the other
  two clauses only). The generator returns for a positive duration.
\<close>

theorem slot_assignment_id:
  "(\<forall>slots. generateTimeSlotsForDay tz date employee st assignments = Some slots \<longrightarrow>
      (\<forall>sl \<in> set slots.
          (available sl \<longleftrightarrow>
             \<not> slotHasConflict (ts_start sl) (ts_end sl)
                 (filter (\<lambda>a. employeeId a = emp_id employee
                             \<and> toDateString tz (startTime a) = toDateString tz date
                             \<and> status a = scheduled) assignments))
        \<and> (available sl \<longrightarrow> assignmentId sl = None)
        \<and> (\<not> available sl \<longrightarrow>
             assignmentId sl =
               map_option wa_id
                 (find (\<lambda>a. js_ge (ts_start sl) (startTime a) \<and> js_lt (ts_start sl) (endTime a))
                    (filter (\<lambda>a. employeeId a = emp_id employee
                                \<and> toDateString tz (startTime a) = toDateString tz date
                                \<and> status a = scheduled) assignments)))
        \<and> ((\<forall>a \<in> set assignments.
                employeeId a = emp_id employee
                \<and> toDateString tz (startTime a) = toDateString tz date
                \<and> status a = scheduled \<longrightarrow>
                \<not> (js_ge (ts_start sl) (startTime a) \<and> js_lt (ts_start sl) (endTime a))) \<longrightarrow>
             assignmentId sl = None)))
   \<and> (0 < slotDuration st \<longrightarrow> generateTimeSlotsForDay tz date employee st assignments \<noteq> None)"
proof (intro conjI allI impI ballI)
  fix slots sl
  assume gen: "generateTimeSlotsForDay tz date employee st assignments = Some slots"
     and sl: "sl \<in> set slots"
  let ?das = "filter (\<lambda>a. employeeId a = emp_id employee
                       \<and> toDateString tz (startTime a) = toDateString tz date
                       \<and> status a = scheduled) assignments"
  have das: "dayAssignmentsOf tz date employee assignments = ?das"
    by (simp add: dayAssignmentsOf_def)
  from generate_slots_shape [OF gen sl] obtain t
    where shape: "sl = makeSlot (slotDuration st) ?das (emp_id employee) t"
    unfolding das by blast
  show "available sl \<longleftrightarrow> \<not> slotHasConflict (ts_start sl) (ts_end sl) ?das"
    by (simp add: shape makeSlot_sel)
  { assume "available sl"
    then show "assignmentId sl = None" by (simp add: shape makeSlot_sel) }
  { assume "\<not> available sl"
    then show "assignmentId sl =
               map_option wa_id
                 (find (\<lambda>a. js_ge (ts_start sl) (startTime a) \<and> js_lt (ts_start sl) (endTime a)) ?das)"
      by (simp add: shape makeSlot_sel) }
  { assume none: "\<forall>a \<in> set assignments.
                employeeId a = emp_id employee
                \<and> toDateString tz (startTime a) = toDateString tz date
                \<and> status a = scheduled \<longrightarrow>
                \<not> (js_ge (ts_start sl) (startTime a) \<and> js_lt (ts_start sl) (endTime a))"
    then have "find (\<lambda>a. js_ge t (startTime a) \<and> js_lt t (endTime a)) ?das = None"
      by (auto simp: shape makeSlot_sel find_None_iff)
    then show "assignmentId sl = None" by (simp add: shape makeSlot_sel) }
next
  assume "0 < slotDuration st"
  then show "generateTimeSlotsForDay tz date employee st assignments \<noteq> None"
    by (rule generate_returns)
qed

theorem slot_assignment_id_witness:
  "generateTimeSlotsForDay 0 exMonday exEmployee exSettings
       [exCancelled, exOtherEmployee, exPrevDay, exShort, exAssignment] =
     Some [\<lparr> ts_start = TimeValue 1705305600000, ts_end = TimeValue 1705309200000,
              available = False, assignmentId = None, ts_employeeId = ''e1'' \<rparr>,
           \<lparr> ts_start = TimeValue 1705309200000, ts_end = TimeValue 1705312800000,
              available = False, assignmentId = Some ''a1'', ts_employeeId = ''e1'' \<rparr>]
   \<and> filter (\<lambda>a. employeeId a = emp_id exEmployee
                 \<and> toDateString 0 (startTime a) = toDateString 0 exMonday
                 \<and> status a = scheduled)
        [exCancelled, exOtherEmployee, exPrevDay, exShort, exAssignment] = [exShort, exAssignment]
   \<and> js_ge (TimeValue 1705305600000) (startTime exOtherEmployee)
   \<and> js_lt (TimeValue 1705305600000) (endTime exOtherEmployee)
   \<and> js_ge (TimeValue 1705305600000) (startTime exPrevDay)
   \<and> js_lt (TimeValue 1705305600000) (endTime exPrevDay)
   \<and> js_ge (TimeValue 1705309200000) (startTime exCancelled)
   \<and> js_lt (TimeValue 1705309200000) (endTime exCancelled)
   \<and> (0::int) < slotDuration exSettings"
  using slot_assignment_id [of 0 exMonday exEmployee exSettings
          "[exCancelled, exOtherEmployee, exPrevDay, exShort, exAssignment]"]
  by (simp add: eval_simps exShort_def exCancelled_def exOtherEmployee_def exPrevDay_def)

text \<open>
  Claim C10. Only assignments whose start lies on the queried local calendar day take
  part in that day's occupancy check: the generator gives the same result on the list
  with every other assignment removed. When no assignment starts on the queried day
  (so also for one that started the day before and runs past midnight into it), every
  generated slot is available, and the generator returns for a positive duration.
\<close>

theorem other_day_assignments_ignored:
  "generateTimeSlotsForDay tz date employee st assignments =
     generateTimeSlotsForDay tz date employee st
       (filter (\<lambda>a. toDateString tz (startTime a) = toDateString tz date) assignments)
   \<and> ((\<forall>a \<in> set assignments. toDateString tz (startTime a) \<noteq> toDateString tz date) \<longrightarrow>
        (\<forall>slots. generateTimeSlotsForDay tz date employee st assignments = Some slots \<longrightarrow>
              (\<forall>sl \<in> set slots. available sl \<and> assignmentId sl = None))
        \<and> (0 < slotDuration st \<longrightarrow>
              generateTimeSlotsForDay tz date employee st assignments \<noteq> None))"
proof (intro conjI impI)
  show "generateTimeSlotsForDay tz date employee st assignments =
     generateTimeSlotsForDay tz date employee st
       (filter (\<lambda>a. toDateString tz (startTime a) = toDateString tz date) assignments)"
    by (simp add: generateTimeSlotsForDay_def dayAssignmentsOf_filter)
next
  assume "\<forall>a \<in> set assignments. toDateString tz (startTime a) \<noteq> toDateString tz date"
  then have "dayAssignmentsOf tz date employee assignments = []"
    by (auto simp: dayAssignmentsOf_def filter_empty_conv)
  then show "\<forall>slots. generateTimeSlotsForDay tz date employee st assignments = Some slots \<longrightarrow>
              (\<forall>sl \<in> set slots. available sl \<and> assignmentId sl = None)"
    using generate_all_available by blast
next
  assume "0 < slotDuration st"
  then show "generateTimeSlotsForDay tz date employee st assignments \<noteq> None"
    by (rule generate_returns)
qed

theorem other_day_assignments_ignored_witness:
  "toDateString 0 (startTime exOvernight) = Some 19737
   \<and> toDateString 0 exTuesday = Some 19738
   \<and> js_lt (startTime exOvernight) (TimeValue 1705392000000)
   \<and> js_ge (endTime exOvernight) (TimeValue 1705399200000)
   \<and> generateTimeSlotsForDay 0 exTuesday exEmployee exSettings [exOvernight] =
       Some [\<lparr> ts_start = TimeValue 1705392000000, ts_end = TimeValue 1705395600000,
                available = True, assignmentId = None, ts_employeeId = ''e1'' \<rparr>,
             \<lparr> ts_start = TimeValue 1705395600000, ts_end = TimeValue 1705399200000,
                available = True, assignmentId = None, ts_employeeId = ''e1'' \<rparr>]"
  using other_day_assignments_ignored [of 0 exTuesday exEmployee exSettings "[exOvernight]"]
  by (simp add: eval_simps exOvernight_def exTuesday_def)

section \<open>The date range\<close>

lemma dayLoop_done:
  "\<not> js_le cur endDate \<Longrightarrow> dayLoop tz emps assignments st eid endDate cur acc = Some acc"
  by (subst dayLoop.simps) simp

lemma dayLoop_weekend_step:
  "js_le cur endDate \<Longrightarrow> getDay tz cur = Some 0 \<or> getDay tz cur = Some 6 \<Longrightarrow>
   dayLoop tz emps assignments st eid endDate cur acc =
   dayLoop tz emps assignments st eid endDate (addDay cur) acc"
  by (subst dayLoop.simps) auto

lemma getDay_next:
  "getDay tz (TimeValue t) = Some n \<Longrightarrow> getDay tz (TimeValue (t + msPerDay)) = Some ((n + 1) mod 7)"
proof -
  have "localDay tz (t + msPerDay) = localDay tz t + 1"
    by (simp add: localDay_def msPerDay_def)
  moreover assume "getDay tz (TimeValue t) = Some n"
  ultimately show ?thesis by (auto simp: mod_simps algebra_simps)
qed

text \<open>
  Claim C8. When both dates are valid and the start lies after the end, the handler
  returns the empty slot list and no error, whatever the employees, assignments and
  settings are.
\<close>

theorem inverted_range_empty:
  "e < s \<Longrightarrow>
   getTimeSlots tz storage
     \<lparr> q_employeeId = eid, q_startDate = Some (TimeValue s), q_endDate = Some (TimeValue e) \<rparr>
   = Some (Inr [])"
  by (simp add: getTimeSlots_def dayLoop_done)

theorem inverted_range_empty_witness:
  "(1705276800000::int) < 1705363200000
   \<and> getTimeSlots 0 exStorage
        \<lparr> q_employeeId = [], q_startDate = Some (TimeValue 1705363200000),
          q_endDate = Some (TimeValue 1705276800000) \<rparr>
      = Some (Inr [])"
  using inverted_range_empty [of 1705276800000 1705363200000 0 exStorage "[]"]
  by simp

text \<open>
  Claim C6. An iteration of the day loop on a Saturday or a Sunday adds nothing to the
  slot list and goes on to the next day; so a range that starts on a Saturday and ends
  before the following Monday yields the empty slot list and no error, whatever the
  employees, assignments and settings are.
\<close>

theorem weekend_days_skipped:
  "(js_le cur endDate \<longrightarrow> (getDay tz cur = Some 0 \<or> getDay tz cur = Some 6) \<longrightarrow>
      dayLoop tz emps assignments st eid endDate cur acc =
      dayLoop tz emps assignments st eid endDate (addDay cur) acc)
   \<and> (getDay tz (TimeValue s) = Some 6 \<longrightarrow> e < s + 2 * msPerDay \<longrightarrow>
        getTimeSlots tz storage
          \<lparr> q_employeeId = eid, q_startDate = Some (TimeValue s), q_endDate = Some (TimeValue e) \<rparr>
        = Some (Inr []))"
proof (intro conjI impI)
  assume "js_le cur endDate" "getDay tz cur = Some 0 \<or> getDay tz cur = Some 6"
  then show "dayLoop tz emps assignments st eid endDate cur acc =
      dayLoop tz emps assignments st eid endDate (addDay cur) acc"
    by (rule dayLoop_weekend_step)
next
  assume sat: "getDay tz (TimeValue s) = Some 6" and short: "e < s + 2 * msPerDay"
  have sun: "getDay tz (TimeValue (s + msPerDay)) = Some 0"
    using getDay_next [OF sat] by simp
  let ?loop = "dayLoop tz (employees storage) (workAssignments storage) (settings storage) eid
                 (TimeValue e)"
  have after: "?loop (TimeValue (s + msPerDay + msPerDay)) [] = Some []"
    using short by (simp add: dayLoop_done)
  have second: "?loop (TimeValue (s + msPerDay)) [] = Some []"
  proof (cases "s + msPerDay \<le> e")
    case True
    then show ?thesis using dayLoop_weekend_step [of "TimeValue (s + msPerDay)" "TimeValue e" tz] sun after
      by simp
  next
    case False
    then show ?thesis by (simp add: dayLoop_done)
  qed
  have first: "?loop (TimeValue s) [] = Some []"
  proof (cases "s \<le> e")
    case True
    then show ?thesis using dayLoop_weekend_step [of "TimeValue s" "TimeValue e" tz] sat second
      by simp
  next
    case False
    then show ?thesis by (simp add: dayLoop_done)
  qed
  then show "getTimeSlots tz storage
          \<lparr> q_employeeId = eid, q_startDate = Some (TimeValue s), q_endDate = Some (TimeValue e) \<rparr>
        = Some (Inr [])"
    by (simp add: getTimeSlots_def)
qed

theorem weekend_days_skipped_witness:
  "js_le (TimeValue 1705104000000) (TimeValue 1705190400000)
   \<and> getDay 0 (TimeValue 1705104000000) = Some 6
   \<and> getDay 0 (TimeValue 1705190400000) = Some 0
   \<and> (1705190400000::int) < 1705104000000 + 2 * msPerDay
   \<and> dayLoop 0 [exEmployee] [exAssignment] exSettings [] (TimeValue 1705190400000)
        (TimeValue 1705104000000) [] =
      dayLoop 0 [exEmployee] [exAssignment] exSettings [] (TimeValue 1705190400000)
        (addDay (TimeValue 1705104000000)) []
   \<and> getTimeSlots 0 exStorage
        \<lparr> q_employeeId = [], q_startDate = Some (TimeValue 1705104000000),
          q_endDate = Some (TimeValue 1705190400000) \<rparr>
      = Some (Inr [])"
  using weekend_days_skipped [where cur = "TimeValue 1705104000000"
          and endDate = "TimeValue 1705190400000" and tz = 0 and emps = "[exEmployee]"
          and assignments = "[exAssignment]" and st = exSettings and eid = "[]" and acc = "[]"
          and s = 1705104000000 and e = 1705190400000 and storage = exStorage]
  by (simp add: localDay_def msPerDay_def)

section \<open>The source of the work window\<close>

text \<open>The body reads the employee's id and nothing else of the employee.\<close>

lemma generator_reads_employee_id_only:
  "emp_id e1 = emp_id e2 \<Longrightarrow>
   generateTimeSlotsForDay tz date e1 st assignments =
   generateTimeSlotsForDay tz date e2 st assignments"
  by (simp add: generateTimeSlotsForDay_def dayAssignmentsOf_def)

text \<open>
  Claim C1. The claim wants the day's window anchored from the employee's own work hours,
  with only \<open>slotDuration\<close> taken from the settings. The code departs from it at this
  input: on Monday 2024-01-15 (host on UTC), for an employee whose work hours are 09:00 to
  17:00, with settings 08:00 to 10:00 and 60 minutes, the employee's hours anchor to
  09:00 and 17:00, but the generated slots are 08:00 to 09:00 and 09:00 to 10:00, the
  settings' window; and with the same employee and the same duration, settings 12:00 to
  13:00 give the single slot 12:00 to 13:00.
\<close>

theorem employee_work_hours_not_used:
  "wh_start (workHours exEmployee) = ''09:00'' \<and> wh_end (workHours exEmployee) = ''17:00''
   \<and> anchor 0 exMonday (wh_start (workHours exEmployee)) = TimeValue 1705309200000
   \<and> anchor 0 exMonday (wh_end (workHours exEmployee)) = TimeValue 1705338000000
   \<and> generateTimeSlotsForDay 0 exMonday exEmployee exSettings [] =
       Some [\<lparr> ts_start = TimeValue 1705305600000, ts_end = TimeValue 1705309200000,
                available = True, assignmentId = None, ts_employeeId = ''e1'' \<rparr>,
             \<lparr> ts_start = TimeValue 1705309200000, ts_end = TimeValue 1705312800000,
                available = True, assignmentId = None, ts_employeeId = ''e1'' \<rparr>]
   \<and> slotDuration (exSettings\<lparr> workStartTime := ''12:00'', workEndTime := ''13:00'' \<rparr>) =
       slotDuration exSettings
   \<and> generateTimeSlotsForDay 0 exMonday exEmployee
        (exSettings\<lparr> workStartTime := ''12:00'', workEndTime := ''13:00'' \<rparr>) [] =
       Some [\<lparr> ts_start = TimeValue 1705320000000, ts_end = TimeValue 1705323600000,
                available = True, assignmentId = None, ts_employeeId = ''e1'' \<rparr>]"
  by (simp add: eval_simps)

section \<open>Updates\<close>

lemma updateFirst_found:
  "find (\<lambda>a. wa_id a = ident) xs = Some old \<Longrightarrow>
   \<exists>xs'. updateFirst ident u now xs = Some (mergeUpdates old u now, xs')
          \<and> mergeUpdates old u now \<in> set xs' \<and> length xs' = length xs"
  by (induction xs) (auto split: if_splits)

text \<open>
  Claim C7, as amended. Conflicts are detected for a new assignment only. An update of an
  existing assignment is never checked against the other assignments: it succeeds with
  the merged fields for every existing id, whatever start and end times the update
  carries, and \<open>updateAssignment\<close> never answers "Time slot is already occupied". A
  creation that passes validation and overlaps a \<open>scheduled\<close> assignment of the same
  employee is rejected with that error (409).
\<close>

theorem update_skips_conflict_check:
  "(ident \<noteq> [] \<longrightarrow> find (\<lambda>a. wa_id a = ident) (workAssignments storage) = Some old \<longrightarrow>
      (\<exists>storage'. updateAssignment storage now ident (Some u) =
                     Inr (mergeUpdates old u now, storage')
         \<and> mergeUpdates old u now \<in> set (workAssignments storage')))
   \<and> updateAssignment storage now ident updates \<noteq> Inl (AppError ''Time slot is already occupied'' 409)
   \<and> (req_startTime body = Some newStart \<longrightarrow> req_endTime body = Some newEnd \<longrightarrow>
       req_employeeId body \<noteq> [] \<longrightarrow> req_clientName body \<noteq> [] \<longrightarrow> req_clientPhone body \<noteq> [] \<longrightarrow>
       req_clientAddress body \<noteq> [] \<longrightarrow> req_workType body \<in> set validWorkTypes \<longrightarrow>
       getEmployeeById storage (req_employeeId body) \<noteq> None \<longrightarrow>
       hasConflict (req_employeeId body) newStart newEnd (workAssignments storage) \<longrightarrow>
         createAssignment storage newId now body =
           Inl (AppError ''Time slot is already occupied'' 409))"
proof (intro conjI impI)
  assume "ident \<noteq> []" "find (\<lambda>a. wa_id a = ident) (workAssignments storage) = Some old"
  then show "\<exists>storage'. updateAssignment storage now ident (Some u) =
                     Inr (mergeUpdates old u now, storage')
         \<and> mergeUpdates old u now \<in> set (workAssignments storage')"
    using updateFirst_found [of ident "workAssignments storage" old u now]
    by (auto simp: updateAssignment_def updateWorkAssignment_def)
next
  show "updateAssignment storage now ident updates \<noteq> Inl (AppError ''Time slot is already occupied'' 409)"
    by (auto simp: updateAssignment_def split: option.splits)
next
  assume "req_startTime body = Some newStart" "req_endTime body = Some newEnd"
    "req_employeeId body \<noteq> []" "req_clientName body \<noteq> []" "req_clientPhone body \<noteq> []"
    "req_clientAddress body \<noteq> []" "req_workType body \<in> set validWorkTypes"
    "getEmployeeById storage (req_employeeId body) \<noteq> None"
    "hasConflict (req_employeeId body) newStart newEnd (workAssignments storage)"
  then show "createAssignment storage newId now body =
           Inl (AppError ''Time slot is already occupied'' 409)"
    by (auto simp: createAssignment_def validWorkTypes_def)
qed

theorem update_overlap_counterexample:
  "hasConflict ''e1'' (TimeValue 1705311000000) (TimeValue 1705314600000) [exAssignment]
   \<and> updateAssignment exStorage2 (TimeValue 1705000000000) ''a2'' (Some exUpdates) =
       Inr (exLater\<lparr> startTime := TimeValue 1705311000000, endTime := TimeValue 1705314600000,
                     updatedAt := TimeValue 1705000000000 \<rparr>,
            exStorage2\<lparr> workAssignments :=
              [exAssignment,
               exLater\<lparr> startTime := TimeValue 1705311000000, endTime := TimeValue 1705314600000,
                        updatedAt := TimeValue 1705000000000 \<rparr>] \<rparr>)
   \<and> createAssignment exStorage ''a5'' (TimeValue 1705000000000) exRequest2 =
       Inl (AppError ''Time slot is already occupied'' 409)"
  by (simp add: hasConflict_def exAssignment_def exLater_def exStorage2_def exStorage_def
        exUpdates_def exRequest2_def exRequest_def exEmployee_def exSettings_def
        updateAssignment_def updateWorkAssignment_def mergeUpdates_def orElse_def
        createAssignment_def validWorkTypes_def getEmployeeById_def)

theorem update_skips_conflict_check_witness:
  "find (\<lambda>a. wa_id a = ''a2'') (workAssignments exStorage2) = Some exLater
   \<and> (\<exists>storage'. updateAssignment exStorage2 (TimeValue 1705000000000) ''a2'' (Some exUpdates) =
                     Inr (mergeUpdates exLater exUpdates (TimeValue 1705000000000), storage'))
   \<and> startTime (mergeUpdates exLater exUpdates (TimeValue 1705000000000)) = TimeValue 1705311000000
   \<and> endTime (mergeUpdates exLater exUpdates (TimeValue 1705000000000)) = TimeValue 1705314600000
   \<and> hasConflict (req_employeeId exRequest2) (TimeValue 1705311000000) (TimeValue 1705314600000)
        (workAssignments exStorage2)
   \<and> createAssignment exStorage2 ''a5'' (TimeValue 1705000000000) exRequest2 =
        Inl (AppError ''Time slot is already occupied'' 409)"
proof -
  have f: "find (\<lambda>a. wa_id a = ''a2'') (workAssignments exStorage2) = Some exLater"
    by (simp add: exStorage2_def exAssignment_def exLater_def)
  have c: "hasConflict (req_employeeId exRequest2) (TimeValue 1705311000000)
             (TimeValue 1705314600000) (workAssignments exStorage2)"
    by (simp add: hasConflict_def exRequest2_def exRequest_def exStorage2_def exAssignment_def
          exLater_def)
  have v: "req_startTime exRequest2 = Some (TimeValue 1705311000000)"
          "req_endTime exRequest2 = Some (TimeValue 1705314600000)"
          "req_employeeId exRequest2 \<noteq> []" "req_clientName exRequest2 \<noteq> []"
          "req_clientPhone exRequest2 \<noteq> []" "req_clientAddress exRequest2 \<noteq> []"
          "req_workType exRequest2 \<in> set validWorkTypes"
          "getEmployeeById exStorage2 (req_employeeId exRequest2) \<noteq> None"
    by (simp_all add: exRequest2_def exRequest_def validWorkTypes_def getEmployeeById_def
          exStorage2_def exEmployee_def)
  have m: "startTime (mergeUpdates exLater exUpdates (TimeValue 1705000000000)) = TimeValue 1705311000000"
          "endTime (mergeUpdates exLater exUpdates (TimeValue 1705000000000)) = TimeValue 1705314600000"
    by (simp_all add: mergeUpdates_def orElse_def exUpdates_def)
  from update_skips_conflict_check [where ident = "''a2''" and storage = exStorage2
      and old = exLater and now = "TimeValue 1705000000000" and u = exUpdates
      and updates = "Some exUpdates" and body = exRequest2
      and newStart = "TimeValue 1705311000000" and newEnd = "TimeValue 1705314600000"
      and newId = "''a5''"]
  show ?thesis using f c v m by auto
qed

end
